theory Spec2Isabelle
  imports Main
begin

section \<open>The element tree of \<open>src/rufus-ai/src/App.tsx\<close>\<close>

text \<open>
  The repository is one React function component, \<open>App\<close>, whose body is a single
  \<open>return\<close> of a JSX expression. A JSX expression evaluates to a tree of elements: each
  element has a tag, the props written on it (name and value, in source order) and its
  children; a child is an element or a run of text.

  Every prop of the source is a string literal, so a prop value is a \<open>string\<close>. Prop
  names are kept as the source writes them (\<open>className\<close>, \<open>aria-label\<close>, ...).
  JSX drops the white space that only separates lines, and joins the lines of a text that
  spans several lines with one blank; the text nodes below are the result of that.
\<close>

datatype jsx =
    Element string "(string \<times> string) list" "jsx list"
  | Text string

text \<open>
  The source file is encoded in UTF-8 and a \<open>char\<close> is a byte: the dash U+2014 of the
  source's texts is the three bytes it occupies in the file.
\<close>

definition em_dash :: string where
  "em_dash = [CHR 0xE2, CHR 0x80, CHR 0x94]"

text \<open>
  \<open>function App() { return ( ... ) }\<close>. The function declares no parameter; a JavaScript
  function still accepts whatever its caller passes (React passes the props object), and
  discards it. The argument \<open>props\<close> stands for that, at any type.
\<close>

definition App :: "'a \<Rightarrow> jsx" where
  "App props =
    Element ''div'' [(''id'', ''root'')]
     [Element ''header'' [(''className'', ''site-header'')]
       [Element ''div'' [(''className'', ''brand'')]
         [Element ''img''
            [(''src'', ''/vite.svg''), (''className'', ''logo''), (''alt'', ''Rufus AI logo'')] [],
          Element ''div'' []
           [Element ''h1'' [] [Text ''Rufus AI''],
            Element ''p'' [(''className'', ''tagline'')]
             [Text ''A helper for UC Merced students, parents, and faculty.'']]],
        Element ''nav'' [(''className'', ''site-nav''), (''aria-label'', ''Primary'')]
         [Element ''a'' [(''href'', ''#students'')] [Text ''Students''],
          Element ''a'' [(''href'', ''#parents'')] [Text ''Parents''],
          Element ''a'' [(''href'', ''#faculty'')] [Text ''Faculty/Staff'']]],
      Element ''main'' []
       [Element ''section'' [(''className'', ''hero''), (''aria-labelledby'', ''hero-heading'')]
         [Element ''h2'' [(''id'', ''hero-heading'')]
           [Text (''Answers and help for everything UC Merced '' @ em_dash @
                  '' registration, campus life, and resources.'')],
          Element ''div'' [(''className'', ''search'')]
           [Element ''input''
              [(''type'', ''text''),
               (''placeholder'', ''e.g., How do I register for CS 101?''),
               (''aria-label'', ''Ask Rufus'')] [],
            Element ''button'' [(''className'', ''primary'')] [Text ''Ask Rufus'']],
          Element ''div'' [(''className'', ''cta-row'')]
           [Element ''button'' [(''className'', ''primary'')] [Text ''Get Started''],
            Element ''a'' [(''className'', ''learn''), (''href'', ''#learn-more'')]
             [Text ''Learn more'']]],
        Element ''section'' [(''className'', ''features''), (''id'', ''learn-more'')]
         [Element ''article'' []
           [Element ''h3'' [] [Text ''Course registration''],
            Element ''p'' []
             [Text ''Step-by-step help with enrollment, deadlines, and prerequisites.'']],
          Element ''article'' []
           [Element ''h3'' [] [Text ''Campus information''],
            Element ''p'' []
             [Text ''Find maps, offices, events, and student services across campus.'']],
          Element ''article'' []
           [Element ''h3'' [] [Text ''Parents & faculty''],
            Element ''p'' []
             [Text ''Resources tailored to support students from families and staff.'']]],
        Element ''section'' [(''className'', ''about''), (''id'', ''students'')]
         [Element ''h3'' [] [Text ''Who it's for''],
          Element ''p'' []
           [Text (''Rufus AI is a prototype assistant for UC Merced students, parents, and faculty ''
                  @ em_dash @ '' a quick way to find answers about courses, registration, ''
                  @ ''campus life, and support services.'')]]],
      Element ''footer'' [(''className'', ''site-footer'')]
       [Element ''p'' []
         [Text (''Built for UC Merced '' @ em_dash @
                '' prototype. Contact: rufus@example.edu'')]]]"


section \<open>Reading a tree\<close>

text \<open>All nodes of a tree, the root first, in document order.\<close>

fun nodes :: "jsx \<Rightarrow> jsx list" where
  "nodes (Text s) = [Text s]"
| "nodes (Element t ps cs) = Element t ps cs # concat (map nodes cs)"

text \<open>The nodes with property \<open>P\<close> at or below the given roots, in document order.\<close>

definition select :: "(jsx \<Rightarrow> bool) \<Rightarrow> jsx list \<Rightarrow> jsx list" where
  "select P roots = filter P (concat (map nodes roots))"

fun tag_of :: "jsx \<Rightarrow> string option" where
  "tag_of (Text s) = None"
| "tag_of (Element t ps cs) = Some t"

fun has_tag :: "string \<Rightarrow> jsx \<Rightarrow> bool" where
  "has_tag t (Text s) = False"
| "has_tag t (Element t' ps cs) = (t' = t)"

fun props_of :: "jsx \<Rightarrow> (string \<times> string) list" where
  "props_of (Text s) = []"
| "props_of (Element t ps cs) = ps"

text \<open>The value of a prop of a node, if the node carries it.\<close>

definition get_prop :: "string \<Rightarrow> jsx \<Rightarrow> string option" where
  "get_prop k n = map_of (props_of n) k"

definition has_class :: "string \<Rightarrow> jsx \<Rightarrow> bool" where
  "has_class c n = (get_prop ''className'' n = Some c)"

definition has_id :: "string \<Rightarrow> jsx \<Rightarrow> bool" where
  "has_id i n = (get_prop ''id'' n = Some i)"

text \<open>The text of a node: the texts below it, concatenated in document order.\<close>

fun text_content :: "jsx \<Rightarrow> string" where
  "text_content (Text s) = s"
| "text_content (Element t ps cs) = concat (map text_content cs)"

text \<open>The heading elements are \<open>h1\<close> to \<open>h6\<close>.\<close>

definition is_heading :: "jsx \<Rightarrow> bool" where
  "is_heading n = (tag_of n \<in> set (map Some [''h1'', ''h2'', ''h3'', ''h4'', ''h5'', ''h6'']))"

text \<open>Every \<open>id\<close> written in a tree, in document order, with repetitions.\<close>

definition ids :: "jsx \<Rightarrow> string list" where
  "ids d = List.map_filter (get_prop ''id'') (nodes d)"

text \<open>
  A link whose \<open>href\<close> is \<open>#\<close> followed by a name points into the page, at the
  elements whose \<open>id\<close> is that name.
\<close>

fun fragment :: "string \<Rightarrow> string option" where
  "fragment [] = None"
| "fragment (c # cs) = (if c = CHR ''#'' then Some cs else None)"

fun targets :: "jsx \<Rightarrow> string option \<Rightarrow> jsx list" where
  "targets d None = []"
| "targets d (Some name) = select (has_id name) [d]"

definition link_targets :: "jsx \<Rightarrow> jsx \<Rightarrow> jsx list" where
  "link_targets d l = targets d (case get_prop ''href'' l of None \<Rightarrow> None | Some h \<Rightarrow> fragment h)"

text \<open>
  React attaches behaviour to an element through the props whose name starts with \<open>on\<close>
  (\<open>onClick\<close>, \<open>onSubmit\<close>, ...).
\<close>

definition is_handler :: "string \<Rightarrow> bool" where
  "is_handler k = (take 2 k = ''on'')"

definition handlers :: "jsx list \<Rightarrow> string list" where
  "handlers ns = filter is_handler (concat (map (\<lambda>n. map fst (props_of n)) ns))"


section \<open>Properties of the tree that \<open>App\<close> returns\<close>

subsection \<open>Navigation\<close>

text \<open>
  Claim C1 (every navigation link's target is an \<open>id\<close> that occurs exactly once in the
  tree). Evaluated on the code: the navigation holds three links, to \<open>#students\<close>,
  \<open>#parents\<close> and \<open>#faculty\<close>, in this order. The first points at exactly one element of
  the tree. The other two point at none: \<open>students\<close> occurs once among the ids of the tree,
  \<open>parents\<close> and \<open>faculty\<close> do not occur.
\<close>

theorem App_nav_link_targets:
  "map (get_prop ''href'') (select (has_tag ''a'') (select (has_tag ''nav'') [App a]))
     = [Some ''#students'', Some ''#parents'', Some ''#faculty'']
   \<and> map (\<lambda>l. length (link_targets (App a) l))
         (select (has_tag ''a'') (select (has_tag ''nav'') [App a]))
     = [1, 0, 0]
   \<and> count_list (ids (App a)) ''students'' = 1
   \<and> count_list (ids (App a)) ''parents'' = 0
   \<and> count_list (ids (App a)) ''faculty'' = 0"
  unfolding App_def by code_simp

text \<open>
  Claim C5: the tree has one \<open>header\<close>; the only \<open>nav\<close> of the tree lies in it and
  carries the accessible name \<open>Primary\<close>; the links of that \<open>nav\<close> are exactly three, with
  the hrefs \<open>#students\<close>, \<open>#parents\<close>, \<open>#faculty\<close> in this order.
\<close>

theorem App_header_nav:
  "length (select (has_tag ''header'') [App a]) = 1
   \<and> select (has_tag ''nav'') (select (has_tag ''header'') [App a])
       = select (has_tag ''nav'') [App a]
   \<and> map (get_prop ''aria-label'') (select (has_tag ''nav'') [App a]) = [Some ''Primary'']
   \<and> length (select (has_tag ''a'') (select (has_tag ''nav'') [App a])) = 3
   \<and> map (get_prop ''href'') (select (has_tag ''a'') (select (has_tag ''nav'') [App a]))
       = [Some ''#students'', Some ''#parents'', Some ''#faculty'']"
  unfolding App_def by code_simp


subsection \<open>Headings and feature articles\<close>

text \<open>
  Claim C2: among the heading elements of the tree exactly one has the hero text (it is the
  second of the six headings, the \<open>h2\<close> with id \<open>hero-heading\<close>); the tree has exactly
  three \<open>article\<close> elements, all of them in the features section, and their headings read
  \<open>Course registration\<close>, \<open>Campus information\<close> and \<open>Parents & faculty\<close>, one heading
  each.
\<close>

theorem App_hero_heading_and_articles:
  "length (select (\<lambda>n. is_heading n \<and> text_content n =
        ''Answers and help for everything UC Merced '' @ [CHR 0xE2, CHR 0x80, CHR 0x94] @
        '' registration, campus life, and resources.'') [App a]) = 1
   \<and> map (get_prop ''id'') (select is_heading [App a])
       = [None, Some ''hero-heading'', None, None, None, None]
   \<and> length (select (has_tag ''article'') [App a]) = 3
   \<and> select (has_tag ''article'') (select (has_class ''features'') [App a])
       = select (has_tag ''article'') [App a]
   \<and> map (\<lambda>n. map text_content (select is_heading [n])) (select (has_tag ''article'') [App a])
       = [[''Course registration''], [''Campus information''], [''Parents & faculty'']]"
  unfolding App_def by code_simp


subsection \<open>Rendering twice\<close>

text \<open>
  Claim C3: any two invocations of \<open>App\<close>, whatever each is passed, return the same tree.
  The component reads nothing: no parameter, no state, no variable outside its body.
\<close>

theorem App_deterministic: "App p = App q"
  by (simp add: App_def)


subsection \<open>The hero section\<close>

text \<open>
  Claim C4: the tree has one \<open>input\<close>, of type \<open>text\<close>; its accessible label is
  \<open>Ask Rufus\<close>, which is not empty, and its placeholder is
  \<open>e.g., How do I register for CS 101?\<close>.
\<close>

theorem App_search_input:
  "map (\<lambda>n. (get_prop ''type'' n, get_prop ''aria-label'' n, get_prop ''placeholder'' n))
       (select (has_tag ''input'') [App a])
     = [(Some ''text'', Some ''Ask Rufus'', Some ''e.g., How do I register for CS 101?'')]
   \<and> map (\<lambda>n. get_prop ''aria-label'' n = None \<or> get_prop ''aria-label'' n = Some [])
         (select (has_tag ''input'') [App a])
     = [False]"
  unfolding App_def by code_simp

text \<open>
  Claim C6: the tree has one element of class \<open>hero\<close>, a \<open>section\<close>. Below it are: one
  heading, with the hero text; one \<open>input\<close>, of type \<open>text\<close>, with a placeholder and an
  accessible label; two buttons, reading \<open>Ask Rufus\<close> and \<open>Get Started\<close>; and one link,
  reading \<open>Learn more\<close>, with href \<open>#learn-more\<close>.
\<close>

theorem App_hero_section:
  "map tag_of (select (has_class ''hero'') [App a]) = [Some ''section'']
   \<and> map text_content (select is_heading (select (has_class ''hero'') [App a]))
       = [''Answers and help for everything UC Merced '' @ [CHR 0xE2, CHR 0x80, CHR 0x94] @
          '' registration, campus life, and resources.'']
   \<and> map (\<lambda>n. (get_prop ''type'' n, get_prop ''placeholder'' n, get_prop ''aria-label'' n))
         (select (has_tag ''input'') (select (has_class ''hero'') [App a]))
       = [(Some ''text'', Some ''e.g., How do I register for CS 101?'', Some ''Ask Rufus'')]
   \<and> map text_content (select (has_tag ''button'') (select (has_class ''hero'') [App a]))
       = [''Ask Rufus'', ''Get Started'']
   \<and> map (\<lambda>n. (text_content n, get_prop ''href'' n))
         (select (has_tag ''a'') (select (has_class ''hero'') [App a]))
       = [(''Learn more'', Some ''#learn-more'')]"
  unfolding App_def by code_simp

text \<open>
  Claim C9: the \<open>Learn more\<close> link of the hero section has the href \<open>#learn-more\<close>, and
  it points at exactly one element of the tree: the \<open>section\<close> of class \<open>features\<close>, whose
  id is \<open>learn-more\<close>.
\<close>

theorem App_learn_more_target:
  "map (\<lambda>l. (get_prop ''href'' l,
              map (\<lambda>n. (tag_of n, get_prop ''className'' n, get_prop ''id'' n))
                  (link_targets (App a) l)))
       (select (\<lambda>n. has_tag ''a'' n \<and> text_content n = ''Learn more'')
               (select (has_class ''hero'') [App a]))
     = [(Some ''#learn-more'', [(Some ''section'', Some ''features'', Some ''learn-more'')])]"
  unfolding App_def by code_simp


subsection \<open>Buttons\<close>

text \<open>
  Claim C7: \<open>App\<close> returns a tree, rooted at a \<open>div\<close>, whatever it is passed: its body is
  one \<open>return\<close> of a literal tree, with no call, no branch and no \<open>throw\<close>, so it has no
  error result. The tree has two buttons; the only prop of each is its class. No node of
  the tree carries an event handler, and no button lies in a \<open>form\<close> that it could submit.
\<close>

theorem App_buttons_inert:
  "tag_of (App a) = Some ''div''
   \<and> map props_of (select (has_tag ''button'') [App a])
       = [[(''className'', ''primary'')], [(''className'', ''primary'')]]
   \<and> handlers (select (has_tag ''button'') [App a]) = []
   \<and> handlers (nodes (App a)) = []
   \<and> select (has_tag ''form'') [App a] = []"
  unfolding App_def by code_simp


subsection \<open>Identifiers and the logo\<close>

text \<open>
  Claim C8: the ids of the tree are \<open>root\<close>, \<open>hero-heading\<close>, \<open>learn-more\<close> and
  \<open>students\<close>, and each of them occurs exactly once.
\<close>

theorem App_ids_unique:
  "ids (App a) = [''root'', ''hero-heading'', ''learn-more'', ''students'']
   \<and> map (count_list (ids (App a))) (ids (App a)) = [1, 1, 1, 1]
   \<and> distinct (ids (App a))"
  unfolding App_def by code_simp

text \<open>
  Claim C10: the tree has one image, the logo in the header, and its alternative text is
  \<open>Rufus AI logo\<close>, which is not empty.
\<close>

theorem App_logo_alt:
  "map (\<lambda>n. (get_prop ''className'' n, get_prop ''alt'' n)) (select (has_tag ''img'') [App a])
     = [(Some ''logo'', Some ''Rufus AI logo'')]
   \<and> select (has_tag ''img'') (select (has_tag ''header'') [App a])
       = select (has_tag ''img'') [App a]
   \<and> map (\<lambda>n. get_prop ''alt'' n = None \<or> get_prop ''alt'' n = Some [])
         (select (has_tag ''img'') [App a])
       = [False]"
  unfolding App_def by code_simp

end
